theory Spec2Isabelle
  imports Main
begin

section \<open>The user collection (models/userModel.js)\<close>

text \<open>
  A document of the \<open>users\<close> collection, with the paths of \<open>userSchema\<close>: \<open>uid\<close> is the
  \<open>_id\<close> the driver generates, \<open>role\<close> defaults to \<open>user\<close>, \<open>balance\<close> to \<open>0\<close>, the two reset
  paths are optional, and \<open>timestamps: true\<close> adds \<open>createdAt\<close> and \<open>updatedAt\<close>. Dates are
  milliseconds since the epoch, as \<open>Date.now()\<close> returns them.
\<close>

record user =
  uid :: string
  name :: string
  email :: string
  password :: string
  role :: string
  balance :: int
  resetToken :: "string option"
  resetTokenExpiration :: "int option"
  createdAt :: int
  updatedAt :: int

section \<open>The environment of one request\<close>

text \<open>
  The libraries the controller calls are not part of the repository, so one request sees them
  through a record: the clock read by \<open>Date.now()\<close>, \<open>bcrypt.hash\<close> and \<open>bcrypt.compare\<close>,
  \<open>jwt.sign\<close> and the secret \<open>process.env.JWT_SECRET\<close>, the \<open>_id\<close> a new document gets, the time
  the store stamps on a saved document, and for each awaited call that may reject (the
  lookup, the save, the mail dispatch) the message of the rejection, if any.
\<close>

datatype jwt_payload = IdRole string string | EmailClaim string

record env =
  date_now :: int
  bcrypt_hash :: "string \<Rightarrow> nat \<Rightarrow> string"
  bcrypt_compare :: "string \<Rightarrow> string \<Rightarrow> bool"
  jwt_sign :: "jwt_payload \<Rightarrow> string \<Rightarrow> string \<Rightarrow> string"
  JWT_SECRET :: string
  new_object_id :: string
  save_time :: int
  find_fault :: "string option"
  save_fault :: "string option"
  email_fault :: "string option"

section \<open>Requests and what a handler does with the response\<close>

record auth_user =
  auth_id :: string
  auth_role :: string

text \<open>
  \<open>req.body\<close> fields are absent (\<open>undefined\<close>) or strings; \<open>req.params.token\<close> is the path
  segment; \<open>req.user\<close> is what the token middleware attached, if it ran.
\<close>

record request =
  body_name :: "string option"
  body_email :: "string option"
  body_password :: "string option"
  body_role :: "string option"
  params_token :: string
  headers_host :: "string option"
  req_user :: "auth_user option"

datatype body_data = NoData | UserData user | TokenData string

text \<open>
  The calls a handler makes on \<open>res\<close> and \<open>next\<close>, in order: \<open>next(new CustomError(m, c))\<close>,
  \<open>res.cookie(n, v, {httpOnly, maxAge})\<close>, \<open>res.status(c).json({message, data})\<close> and
  \<open>console.log\<close>.
\<close>

datatype effect =
    Next_error string nat
  | Cookie string string bool nat
  | Json nat string body_data
  | Console_log string

record outcome =
  db :: "user list"
  effects :: "effect list"
  mail :: "(string \<times> string \<times> string) list"

section \<open>Store operations\<close>

text \<open>\<open>!x\<close> on a body field holds for \<open>undefined\<close> and for the empty string.\<close>

fun nonempty :: "string option \<Rightarrow> string option" where
  "nonempty (Some (c # cs)) = Some (c # cs)"
| "nonempty _ = None"

text \<open>\<open>User.findOne(q)\<close>: the first document in natural order that matches, or a rejection.\<close>

definition findOne :: "env \<Rightarrow> (user \<Rightarrow> bool) \<Rightarrow> user list \<Rightarrow> string + user option" where
  "findOne env q s = (case find_fault env of Some m \<Rightarrow> Inl m | None \<Rightarrow> Inr (List.find q s))"

text \<open>
  \<open>doc.save()\<close> of a new document inserts it, stamped with both timestamps, and resolves to
  the stamped document.
\<close>

definition save_new :: "env \<Rightarrow> user \<Rightarrow> user list \<Rightarrow> string + (user \<times> user list)" where
  "save_new env d s =
     (case save_fault env of
        Some m \<Rightarrow> Inl m
      | None \<Rightarrow>
          (let d' = d\<lparr>createdAt := save_time env, updatedAt := save_time env\<rparr>
           in Inr (d', s @ [d'])))"

text \<open>
  \<open>doc.save()\<close> of a document read from the store updates the stored document with the same
  \<open>_id\<close>; \<open>updatedAt\<close> is stamped when a path was modified. It rejects when no stored
  document has that \<open>_id\<close>.
\<close>

fun replace_first :: "user \<Rightarrow> user list \<Rightarrow> user list option" where
  "replace_first d [] = None"
| "replace_first d (x # xs) =
     (if uid x = uid d then Some (d # xs) else map_option ((#) x) (replace_first d xs))"

definition stamp :: "env \<Rightarrow> user \<Rightarrow> user \<Rightarrow> user" where
  "stamp env orig d = (if d = orig then d else d\<lparr>updatedAt := save_time env\<rparr>)"

definition save_existing :: "env \<Rightarrow> user \<Rightarrow> user \<Rightarrow> user list \<Rightarrow> string + user list" where
  "save_existing env orig d s =
     (case save_fault env of
        Some m \<Rightarrow> Inl m
      | None \<Rightarrow>
          (case replace_first (stamp env orig d) s of
             None \<Rightarrow> Inl ''No document found for query''
           | Some s' \<Rightarrow> Inr s'))"

text \<open>\<open>emailService(to, subject, html)\<close>: the message handed over, or a rejection.\<close>

definition emailService ::
  "env \<Rightarrow> string \<Rightarrow> string \<Rightarrow> string \<Rightarrow> string + (string \<times> string \<times> string)" where
  "emailService env to subject html =
     (case email_fault env of Some m \<Rightarrow> Inl m | None \<Rightarrow> Inr (to, subject, html))"

section \<open>The auth controller\<close>

definition failed :: "user list \<Rightarrow> string \<Rightarrow> nat \<Rightarrow> outcome" where
  "failed s m c = \<lparr>db = s, effects = [Next_error m c], mail = []\<rparr>"

subsection \<open>register\<close>

text \<open>
  \<open>newUser\<close> is an object, so the \<open>else\<close> branch of \<open>if (newUser)\<close> (``Registration process
  failed.'') is never taken; the response carries the saved document. The two timestamps of
  \<open>newUser\<close> have no value before the save sets them; they stand as \<open>0\<close> until then.
\<close>

definition register :: "env \<Rightarrow> user list \<Rightarrow> request \<Rightarrow> outcome" where
  "register env s req =
     (case (nonempty (body_name req), nonempty (body_email req), nonempty (body_password req)) of
        (Some n, Some e, Some pw) \<Rightarrow>
          (case findOne env (\<lambda>u. email u = e) s of
             Inl m \<Rightarrow> failed s m 500
           | Inr (Some existingUser) \<Rightarrow>
               failed s ''User already registered. Please use login for process.'' 400
           | Inr None \<Rightarrow>
               (let hashPassword = bcrypt_hash env pw 10;
                    newUser = \<lparr>uid = new_object_id env, name = n, email = e,
                               password = hashPassword,
                               role = (case body_role req of None \<Rightarrow> ''user'' | Some r \<Rightarrow> r),
                               balance = 0, resetToken = None, resetTokenExpiration = None,
                               createdAt = 0, updatedAt = 0\<rparr>
                in case save_new env newUser s of
                     Inl m \<Rightarrow> failed s m 500
                   | Inr (saved, s') \<Rightarrow>
                       \<lparr>db = s', effects = [Json 201 ''New user created.'' (UserData saved)],
                        mail = []\<rparr>))
      | _ \<Rightarrow> failed s ''Input fields are empty. Please fill the fields.'' 400)"

subsection \<open>login\<close>

text \<open>
  The branch for an unknown email calls \<open>next\<close> without returning, so the handler goes on
  to \<open>bcrypt.compare(password, existUser.password)\<close>; with \<open>existUser\<close> being \<open>null\<close>,
  evaluating the argument throws a \<open>TypeError\<close>, and the \<open>catch\<close> block calls \<open>next\<close> again.
\<close>

definition null_password_message :: string where
  "null_password_message = ''Cannot read properties of null (reading 'password')''"

definition login :: "env \<Rightarrow> user list \<Rightarrow> request \<Rightarrow> outcome" where
  "login env s req =
     (case (nonempty (body_email req), nonempty (body_password req)) of
        (Some e, Some pw) \<Rightarrow>
          (case findOne env (\<lambda>u. email u = e) s of
             Inl m \<Rightarrow> failed s m 500
           | Inr existUser \<Rightarrow>
               (let called =
                      (if existUser = None
                       then [Next_error
                         ''User not registered. Please create account using register and login again.''
                         400]
                       else [])
                in case existUser of
                     None \<Rightarrow>
                       \<lparr>db = s, effects = called @ [Next_error null_password_message 500],
                        mail = []\<rparr>
                   | Some u \<Rightarrow>
                       (if \<not> bcrypt_compare env pw (password u)
                        then \<lparr>db = s,
                              effects = called @
                                [Next_error ''Password incorrect. Please try again'' 400],
                              mail = []\<rparr>
                        else
                          (let accessToken =
                                 jwt_sign env (IdRole (uid u) (role u)) (JWT_SECRET env) ''1h''
                           in \<lparr>db = s,
                               effects = called @
                                 [Cookie ''authToken'' accessToken True 3600000] @
                                 (if accessToken \<noteq> []
                                  then [Json 200 ''Login successful.'' (TokenData accessToken)]
                                  else []) @
                                 [Console_log (role u @ '' logged.'')],
                               mail = []\<rparr>))))
      | _ \<Rightarrow> failed s ''Input fields are empty.'' 400)"

subsection \<open>forgotPassword\<close>

definition dq :: string where
  "dq = [CHR 0x22]"

definition nl :: string where
  "nl = [CHR 0x0A]"

text \<open>
  The HTML body of the mail, the template literal of the source with its two holes; an
  absent \<open>Host\<close> header prints as \<open>undefined\<close>. Characters outside ASCII are their UTF-8 bytes.
\<close>

definition reset_mail_html :: "string option \<Rightarrow> string \<Rightarrow> string" where
  "reset_mail_html hostHeader tok =
    (let host = (case hostHeader of None \<Rightarrow> ''undefined'' | Some h \<Rightarrow> h) in
    ''<div style='' @ dq @ ''font-family: Arial, sans-serif; max-width: 600px; padding: 20px; border: 1px solid #ddd; margin: auto;'' @ dq @ ''>'' @ nl @
    ''    <h2 style='' @ dq @ ''color: #333; text-align: center;'' @ dq @ ''>Reset Your Password</h2>'' @ nl @
    ''    <p style='' @ dq @ ''font-size: 16px; color: #555;'' @ dq @ ''>You recently requested to reset your password for your account. Click the button below to proceed:</p>'' @ nl @
    ''    <div style='' @ dq @ ''text-align: center; margin: 20px 0;'' @ dq @ ''>'' @ nl @
    ''      <a href='' @ dq @ ''http://'' @ host @ ''/api/auth/reset-password/'' @ tok @ nl @
    nl @
    dq @ '' '' @ nl @
    ''         style='' @ dq @ ''background-color: #4CAF50; color: white; padding: 12px 24px; text-decoration: none; font-size: 16px; border-radius: 5px; display: inline-block;'' @ dq @ ''>'' @ nl @
    ''        Reset Password'' @ nl @
    ''      </a>'' @ nl @
    ''    </div>'' @ nl @
    ''     <a>'' @ dq @ ''http://'' @ host @ ''/api/auth/reset-password/'' @ tok @ nl @
    nl @
    dq @ ''</a>'' @ nl @
    ''    <p style='' @ dq @ ''font-size: 14px; color: #777;'' @ dq @ ''>If you didn'' @ [CHR 0xE2, CHR 0x80, CHR 0x99] @ ''t request a password reset, you can safely ignore this email.</p>'' @ nl @
    ''    <p style='' @ dq @ ''font-size: 14px; color: #777;'' @ dq @ ''>This link will expire in 30 minutes.</p>'' @ nl @
    ''    <hr style='' @ dq @ ''border: none; border-top: 1px solid #ddd;'' @ dq @ ''>'' @ nl @
    ''    <p style='' @ dq @ ''font-size: 12px; text-align: center; color: #aaa;'' @ dq @ ''>'' @ [CHR 0xC2, CHR 0xA9] @ '' 2025 Financial Tracker Company. All rights reserved.</p>'' @ nl @
    ''  </div>'')"

definition forgotPassword :: "env \<Rightarrow> user list \<Rightarrow> request \<Rightarrow> outcome" where
  "forgotPassword env s req =
     (case nonempty (body_email req) of
        None \<Rightarrow> failed s ''Input filed is empty'' 400
      | Some e \<Rightarrow>
          (case findOne env (\<lambda>u. email u = e) s of
             Inl m \<Rightarrow> failed s m 500
           | Inr None \<Rightarrow> failed s ''User not found.'' 404
           | Inr (Some existUser) \<Rightarrow>
               (let resetTok =
                      jwt_sign env (EmailClaim (email existUser)) (JWT_SECRET env) ''30m'';
                    modified = existUser
                      \<lparr>resetToken := Some resetTok,
                       resetTokenExpiration := Some (date_now env + 18000000)\<rparr>
                in case save_existing env existUser modified s of
                     Inl m \<Rightarrow> failed s m 500
                   | Inr s' \<Rightarrow>
                       (case emailService env (email existUser)
                               ''Password reset for Financial Tracker''
                               (reset_mail_html (headers_host req) resetTok) of
                          Inl m \<Rightarrow> failed s' m 500
                        | Inr sent \<Rightarrow> \<lparr>db = s', effects = [], mail = [sent]\<rparr>))))"

subsection \<open>resetPassword\<close>

text \<open>
  The query \<open>{resetToken: token, resetTokenExpiration: {$gt: Date.now()}}\<close>: a document
  without one of the two paths does not match.
\<close>

definition reset_query :: "string \<Rightarrow> int \<Rightarrow> user \<Rightarrow> bool" where
  "reset_query tok now u =
     (resetToken u = Some tok \<and>
      (case resetTokenExpiration u of None \<Rightarrow> False | Some t \<Rightarrow> now < t))"

definition resetPassword :: "env \<Rightarrow> user list \<Rightarrow> request \<Rightarrow> outcome" where
  "resetPassword env s req =
     (case nonempty (body_password req) of
        None \<Rightarrow> failed s ''Enter your new password.'' 400
      | Some pw \<Rightarrow>
          (case findOne env (reset_query (params_token req) (date_now env)) s of
             Inl m \<Rightarrow> failed s m 500
           | Inr None \<Rightarrow> failed s ''Password reset token expired or invalid.'' 404
           | Inr (Some existUser) \<Rightarrow>
               (let modified = existUser
                      \<lparr>password := bcrypt_hash env pw 10, resetToken := None,
                       resetTokenExpiration := None\<rparr>
                in case save_existing env existUser modified s of
                     Inl m \<Rightarrow> failed s m 500
                   | Inr s' \<Rightarrow>
                       \<lparr>db = s', effects = [Json 200 ''Password reset successful.'' NoData],
                        mail = []\<rparr>)))"

section \<open>Role authorization and the user routes\<close>

text \<open>
  A middleware or handler either calls \<open>next()\<close>, possibly after changing the request,
  or calls \<open>next(err)\<close>, or sends a response; each may change the application state \<open>'st\<close>.
\<close>

datatype 'st stage_result =
    Proceed request 'st
  | Rejected string nat 'st
  | Responded nat 'st

definition authorizationRoles :: "string list \<Rightarrow> request \<Rightarrow> 'st \<Rightarrow> 'st stage_result" where
  "authorizationRoles allowedRoles req st =
     (if (case req_user req of None \<Rightarrow> True | Some usr \<Rightarrow> auth_role usr \<notin> set allowedRoles)
      then Rejected
        ''You are unauthorized for this action. Please contact system administration.'' 401 st
      else Proceed req st)"

text \<open>
  The stages of a route run in order; the first one that does not call \<open>next()\<close> ends the
  chain, and the stages after it are not called.
\<close>

fun run_chain :: "(request \<Rightarrow> 'st \<Rightarrow> 'st stage_result) list \<Rightarrow> request \<Rightarrow> 'st \<Rightarrow> 'st stage_result" where
  "run_chain [] req st = Proceed req st"
| "run_chain (m # ms) req st =
     (case m req st of
        Proceed req' st' \<Rightarrow> run_chain ms req' st'
      | Rejected msg code st' \<Rightarrow> Rejected msg code st'
      | Responded code st' \<Rightarrow> Responded code st')"

datatype http_method = GET | PUT | DELETE

text \<open>
  The route table of the user router. \<open>validateToken\<close> and the four handlers of the user
  controller are defined outside the files at hand and are parameters here.
\<close>

definition router ::
  "(request \<Rightarrow> 'st \<Rightarrow> 'st stage_result) \<Rightarrow> (request \<Rightarrow> 'st \<Rightarrow> 'st stage_result) \<Rightarrow>
   (request \<Rightarrow> 'st \<Rightarrow> 'st stage_result) \<Rightarrow> (request \<Rightarrow> 'st \<Rightarrow> 'st stage_result) \<Rightarrow>
   (request \<Rightarrow> 'st \<Rightarrow> 'st stage_result) \<Rightarrow>
   (http_method \<times> string \<times> (request \<Rightarrow> 'st \<Rightarrow> 'st stage_result) list) list" where
  "router validateToken getUsers getUserByID updateUser deleteUser =
     [(GET, ''/users'', [validateToken, authorizationRoles [''admin''], getUsers]),
      (GET, ''/user/:id'', [validateToken, authorizationRoles [''user'', ''admin''], getUserByID]),
      (PUT, ''/user/:id'', [validateToken, authorizationRoles [''user'', ''admin''], updateUser]),
      (DELETE, ''/user/:id'', [validateToken, authorizationRoles [''admin''], deleteUser])]"

text \<open>A request is served by the first route with its method and path pattern.\<close>

definition serve ::
  "(http_method \<times> string \<times> (request \<Rightarrow> 'st \<Rightarrow> 'st stage_result) list) list \<Rightarrow>
   http_method \<Rightarrow> string \<Rightarrow> request \<Rightarrow> 'st \<Rightarrow> 'st stage_result" where
  "serve routes m p req st =
     (case List.find (\<lambda>(m', p', chain). m' = m \<and> p' = p) routes of
        None \<Rightarrow> Proceed req st
      | Some (m', p', chain) \<Rightarrow> run_chain chain req st)"

section \<open>A concrete environment\<close>

text \<open>
  For evaluating the handlers on concrete requests: a hasher that prefixes the plaintext and
  verifies by recomputing, and a signer whose token is determined by the claims, the
  lifetime and the second \<open>iat\<close> at which it signs, as the tokens of \<open>jwt.sign\<close> are.
\<close>

definition sample_env :: "int \<Rightarrow> string \<Rightarrow> env" where
  "sample_env now iat =
     \<lparr>date_now = now,
      bcrypt_hash = (\<lambda>p c. ''$2b$10$'' @ p),
      bcrypt_compare = (\<lambda>p h. h = ''$2b$10$'' @ p),
      jwt_sign = (\<lambda>claims secret ttl.
         (case claims of
            IdRole i r \<Rightarrow> ''id='' @ i @ '';role='' @ r
          | EmailClaim e \<Rightarrow> ''email='' @ e) @ '';iat='' @ iat @ '';exp='' @ ttl),
      JWT_SECRET = ''test-secret-key'',
      new_object_id = ''u2'',
      save_time = now,
      find_fault = None,
      save_fault = None,
      email_fault = None\<rparr>"

definition alice :: user where
  "alice = \<lparr>uid = ''u1'', name = ''A'', email = ''a@x.com'', password = ''$2b$10$P1'',
     role = ''user'', balance = 0, resetToken = None, resetTokenExpiration = None,
     createdAt = 0, updatedAt = 0\<rparr>"

definition request_of :: "string option \<Rightarrow> string option \<Rightarrow> string option \<Rightarrow> string \<Rightarrow> request" where
  "request_of n e pw tok =
     \<lparr>body_name = n, body_email = e, body_password = pw, body_role = None,
      params_token = tok, headers_host = Some ''localhost:4501'', req_user = None\<rparr>"

definition pending_alice :: user where
  "pending_alice = alice\<lparr>resetToken := Some ''tok'', resetTokenExpiration := Some 5000\<rparr>"

definition expired_alice :: user where
  "expired_alice = alice\<lparr>resetToken := Some ''tok'', resetTokenExpiration := Some 1000\<rparr>"

text \<open>
  A token middleware that attaches an authenticated user of role \<open>user\<close>, and a handler
  that counts its calls in the state.
\<close>

definition sample_validateToken :: "request \<Rightarrow> nat \<Rightarrow> nat stage_result" where
  "sample_validateToken req st =
     Proceed (req\<lparr>req_user := Some \<lparr>auth_id = ''u1'', auth_role = ''user''\<rparr>\<rparr>) st"

definition counting_handler :: "request \<Rightarrow> nat \<Rightarrow> nat stage_result" where
  "counting_handler req st = Responded 200 (Suc st)"

section \<open>Facts about the store operations\<close>

lemma find_in_set: "List.find P s = Some u \<Longrightarrow> u \<in> set s \<and> P u"
  by (auto simp: find_Some_iff)

lemma replace_first_ok: "u \<in> set s \<Longrightarrow> uid d = uid u \<Longrightarrow> \<exists>s'. replace_first d s = Some s'"
  by (induction s) auto

lemma replace_first_find:
  "replace_first d s = Some s' \<Longrightarrow> List.find (\<lambda>v. uid v = uid d) s' = Some d"
  by (induction s arbitrary: s') (auto split: if_splits)

lemma replace_first_others:
  "replace_first d s = Some s' \<Longrightarrow>
   filter (\<lambda>v. uid v \<noteq> uid d) s' = filter (\<lambda>v. uid v \<noteq> uid d) s"
  by (induction s arbitrary: s') (auto split: if_splits)

lemma replace_first_subset:
  "replace_first d s = Some s' \<Longrightarrow> set s' \<subseteq> insert d (set s)"
  by (induction s arbitrary: s') (auto split: if_splits)

lemma replace_first_ids:
  "replace_first d s = Some s' \<Longrightarrow> map uid s' = map uid s"
  by (induction s arbitrary: s') (auto split: if_splits)

text \<open>With unique \<open>_id\<close>s, saving a document changes exactly the stored copy of it.\<close>

lemma replace_first_distinct:
  "distinct (map uid s) \<Longrightarrow> u \<in> set s \<Longrightarrow> uid d = uid u \<Longrightarrow>
   replace_first d s = Some (map (\<lambda>v. if uid v = uid u then d else v) s)"
proof (induction s)
  case Nil
  then show ?case by simp
next
  case (Cons x xs)
  show ?case
  proof (cases "uid x = uid u")
    case True
    from Cons.prems(1) have "uid x \<notin> uid ` set xs" by simp
    then have "\<forall>v \<in> set xs. uid v \<noteq> uid x" by (metis imageI)
    with True have "map (\<lambda>v. if uid v = uid u then d else v) xs = xs"
      by (simp add: map_idI)
    with True Cons.prems(3) show ?thesis by simp
  next
    case False
    with Cons.prems have "u \<in> set xs" "distinct (map uid xs)" by auto
    from Cons.IH [OF this(2) this(1) Cons.prems(3)] False Cons.prems(3) show ?thesis by simp
  qed
qed

lemma find_map_replace:
  "distinct (map uid s) \<Longrightarrow> List.find P s = Some u \<Longrightarrow> P d \<Longrightarrow> uid d = uid u \<Longrightarrow>
   List.find P (map (\<lambda>v. if uid v = uid u then d else v) s) = Some d"
proof (induction s)
  case Nil
  then show ?case by simp
next
  case (Cons x xs)
  show ?case
  proof (cases "P x")
    case True
    with Cons.prems(2) have "x = u" by simp
    with Cons.prems(3) show ?thesis by simp
  next
    case False
    with Cons.prems(2) have f: "List.find P xs = Some u" by simp
    then have "u \<in> set xs" using find_in_set by fastforce
    moreover from Cons.prems(1) have "uid x \<notin> uid ` set xs" by simp
    ultimately have "uid x \<noteq> uid u" by (metis imageI)
    moreover from Cons.prems(1) have "distinct (map uid xs)" by simp
    ultimately show ?thesis
      using False Cons.IH [OF _ f Cons.prems(3) Cons.prems(4)] by simp
  qed
qed

lemma stamp_fields:
  "uid (stamp env orig d) = uid d" "name (stamp env orig d) = name d"
  "email (stamp env orig d) = email d" "password (stamp env orig d) = password d"
  "role (stamp env orig d) = role d" "balance (stamp env orig d) = balance d"
  "resetToken (stamp env orig d) = resetToken d"
  "resetTokenExpiration (stamp env orig d) = resetTokenExpiration d"
  "createdAt (stamp env orig d) = createdAt d"
  by (simp_all add: stamp_def)

section \<open>What each handler does to the store\<close>

lemma register_db:
  "db (register env s req) = s \<or>
   (\<exists>u pw. nonempty (body_password req) = Some pw \<and> db (register env s req) = s @ [u] \<and>
      uid u = new_object_id env \<and> password u = bcrypt_hash env pw 10)"
  by (auto simp: register_def findOne_def save_new_def failed_def Let_def
      split: option.splits sum.splits prod.splits)

lemma login_db: "db (login env s req) = s"
  by (auto simp: login_def findOne_def failed_def Let_def
      split: option.splits sum.splits prod.splits)

text \<open>
  For an email no stored user has, \<open>login\<close> calls \<open>next\<close> twice: with the 400 error, and
  then with the 500 error of the \<open>TypeError\<close>.
\<close>

lemma login_unknown_email:
  assumes "nonempty (body_email req) = Some e"
    and "nonempty (body_password req) = Some pw"
    and "find_fault env = None"
    and "\<forall>u \<in> set s. email u \<noteq> e"
  shows "effects (login env s req) =
    [Next_error
       ''User not registered. Please create account using register and login again.'' 400,
     Next_error null_password_message 500]"
proof -
  from assms(4) have "List.find (\<lambda>u. email u = e) s = None"
    by (simp add: find_None_iff)
  with assms(1-3) show ?thesis
    by (simp add: login_def findOne_def)
qed

lemma resetPassword_success:
  assumes pw: "nonempty (body_password req) = Some pw"
    and ff: "find_fault env = None"
    and sf: "save_fault env = None"
    and fnd: "List.find (reset_query (params_token req) (date_now env)) s = Some u"
  shows "\<exists>s'. replace_first
            (u\<lparr>password := bcrypt_hash env pw 10, resetToken := None,
               resetTokenExpiration := None, updatedAt := save_time env\<rparr>) s = Some s' \<and>
          resetPassword env s req =
            \<lparr>db = s', effects = [Json 200 ''Password reset successful.'' NoData], mail = []\<rparr>"
proof -
  let ?m = "u\<lparr>password := bcrypt_hash env pw 10, resetToken := None,
              resetTokenExpiration := None\<rparr>"
  from fnd have mem: "u \<in> set s" and q: "reset_query (params_token req) (date_now env) u"
    using find_in_set by fastforce+
  from q have "resetToken u \<noteq> None" by (simp add: reset_query_def)
  then have "?m \<noteq> u"
  proof (rule contrapos_nn)
    assume "?m = u"
    then have "resetToken ?m = resetToken u" by (rule arg_cong)
    then show "resetToken u = None" by simp
  qed
  then have st: "stamp env u ?m = ?m\<lparr>updatedAt := save_time env\<rparr>" by (simp add: stamp_def)
  from replace_first_ok [OF mem, of "?m\<lparr>updatedAt := save_time env\<rparr>"]
  obtain s' where s': "replace_first (?m\<lparr>updatedAt := save_time env\<rparr>) s = Some s'" by auto
  show ?thesis
    using pw ff sf fnd st s'
    by (simp add: resetPassword_def findOne_def save_existing_def)
qed

lemma resetPassword_outcome:
  "(\<exists>m c. resetPassword env s req = failed s m c) \<or>
   (\<exists>u pw. nonempty (body_password req) = Some pw \<and> find_fault env = None \<and>
      save_fault env = None \<and>
      List.find (reset_query (params_token req) (date_now env)) s = Some u \<and>
      replace_first
        (u\<lparr>password := bcrypt_hash env pw 10, resetToken := None,
           resetTokenExpiration := None, updatedAt := save_time env\<rparr>) s =
        Some (db (resetPassword env s req)) \<and>
      effects (resetPassword env s req) = [Json 200 ''Password reset successful.'' NoData])"
proof (cases "nonempty (body_password req)")
  case None
  then show ?thesis by (auto simp: resetPassword_def)
next
  case (Some pw)
  note pw = this
  show ?thesis
  proof (cases "find_fault env")
    case (Some m)
    with pw show ?thesis by (auto simp: resetPassword_def findOne_def)
  next
    case None
    note ff = this
    show ?thesis
    proof (cases "List.find (reset_query (params_token req) (date_now env)) s")
      case None
      with ff pw show ?thesis by (auto simp: resetPassword_def findOne_def)
    next
      case (Some u)
      note fnd = this
      show ?thesis
      proof (cases "save_fault env")
        case (Some m)
        with ff fnd pw show ?thesis
          by (auto simp: resetPassword_def findOne_def save_existing_def)
      next
        case None
        from resetPassword_success [OF pw ff None fnd]
        show ?thesis using pw ff None fnd by auto
      qed
    qed
  qed
qed

lemma resetPassword_no_match:
  assumes "nonempty (body_password req) = Some pw"
    and "find_fault env = None"
    and "\<forall>u \<in> set s. \<not> reset_query (params_token req) (date_now env) u"
  shows "resetPassword env s req = failed s ''Password reset token expired or invalid.'' 404"
proof -
  from assms(3) have "List.find (reset_query (params_token req) (date_now env)) s = None"
    by (simp add: find_None_iff)
  with assms(1,2) show ?thesis
    by (simp add: resetPassword_def findOne_def)
qed

lemma forgotPassword_found:
  assumes e: "nonempty (body_email req) = Some e"
    and ff: "find_fault env = None"
    and sf: "save_fault env = None"
    and fnd: "List.find (\<lambda>v. email v = e) s = Some u"
  shows "\<exists>s'. replace_first
            (stamp env u
               (u\<lparr>resetToken := Some (jwt_sign env (EmailClaim e) (JWT_SECRET env) ''30m''),
                  resetTokenExpiration := Some (date_now env + 18000000)\<rparr>)) s = Some s' \<and>
          forgotPassword env s req =
            (case email_fault env of
               Some m \<Rightarrow> failed s' m 500
             | None \<Rightarrow>
                 \<lparr>db = s', effects = [],
                  mail = [(e, ''Password reset for Financial Tracker'',
                           reset_mail_html (headers_host req)
                             (jwt_sign env (EmailClaim e) (JWT_SECRET env) ''30m''))]\<rparr>)"
proof -
  let ?d = "stamp env u
     (u\<lparr>resetToken := Some (jwt_sign env (EmailClaim e) (JWT_SECRET env) ''30m''),
        resetTokenExpiration := Some (date_now env + 18000000)\<rparr>)"
  from fnd have mem: "u \<in> set s" and em: "email u = e"
    using find_in_set by fastforce+
  have "uid ?d = uid u" by (simp add: stamp_fields)
  from replace_first_ok [OF mem this] obtain s' where s': "replace_first ?d s = Some s'" by auto
  show ?thesis
    using e ff sf fnd em s'
    by (simp add: forgotPassword_def findOne_def save_existing_def emailService_def
        split: option.splits)
qed

lemma forgotPassword_saved:
  assumes "nonempty (body_email req) = Some e"
    and "find_fault env = None"
    and "save_fault env = None"
    and "List.find (\<lambda>v. email v = e) s = Some u"
  shows "replace_first
           (stamp env u
              (u\<lparr>resetToken := Some (jwt_sign env (EmailClaim e) (JWT_SECRET env) ''30m''),
                 resetTokenExpiration := Some (date_now env + 18000000)\<rparr>)) s =
         Some (db (forgotPassword env s req))"
  using forgotPassword_found [OF assms]
  by (auto simp: failed_def split: option.splits)

lemma forgotPassword_outcome:
  "db (forgotPassword env s req) = s \<or>
   (\<exists>e u. nonempty (body_email req) = Some e \<and> find_fault env = None \<and>
      save_fault env = None \<and> List.find (\<lambda>v. email v = e) s = Some u)"
  by (auto simp: forgotPassword_def findOne_def save_existing_def failed_def Let_def
      split: option.splits sum.splits)

lemma forgotPassword_passwords:
  "set (map password (db (forgotPassword env s req))) \<subseteq> set (map password s)"
proof (rule disjE [OF forgotPassword_outcome [of env s req]])
  assume "db (forgotPassword env s req) = s"
  then show ?thesis by simp
next
  assume "\<exists>e u. nonempty (body_email req) = Some e \<and> find_fault env = None \<and>
      save_fault env = None \<and> List.find (\<lambda>v. email v = e) s = Some u"
  then obtain e u where e: "nonempty (body_email req) = Some e"
    and ff: "find_fault env = None" and sf: "save_fault env = None"
    and fnd: "List.find (\<lambda>v. email v = e) s = Some u"
    by blast
  let ?d = "stamp env u
     (u\<lparr>resetToken := Some (jwt_sign env (EmailClaim e) (JWT_SECRET env) ''30m''),
        resetTokenExpiration := Some (date_now env + 18000000)\<rparr>)"
  from fnd have "u \<in> set s" using find_in_set by fastforce
  then have "password ?d \<in> set (map password s)" by (simp add: stamp_fields)
  moreover from replace_first_subset [OF forgotPassword_saved [OF e ff sf fnd]]
  have "set (map password (db (forgotPassword env s req))) \<subseteq>
        insert (password ?d) (set (map password s))" by auto
  ultimately show ?thesis by auto
qed

lemma forgotPassword_db_distinct:
  assumes "distinct (map uid s)"
    and "nonempty (body_email req) = Some e"
    and "find_fault env = None"
    and "save_fault env = None"
    and "List.find (\<lambda>v. email v = e) s = Some u"
  shows "db (forgotPassword env s req) =
         map (\<lambda>v. if uid v = uid u
                  then stamp env u
                    (u\<lparr>resetToken := Some (jwt_sign env (EmailClaim e) (JWT_SECRET env) ''30m''),
                       resetTokenExpiration := Some (date_now env + 18000000)\<rparr>)
                  else v) s"
proof -
  let ?d = "stamp env u
     (u\<lparr>resetToken := Some (jwt_sign env (EmailClaim e) (JWT_SECRET env) ''30m''),
        resetTokenExpiration := Some (date_now env + 18000000)\<rparr>)"
  from assms(5) have mem: "u \<in> set s" using find_in_set by fastforce
  have id: "uid ?d = uid u" by (simp add: stamp_fields)
  from replace_first_distinct [OF assms(1) mem id] forgotPassword_saved [OF assms(2,3,4,5)]
  show ?thesis by simp
qed

text \<open>
  The \<open>_id\<close>s of the collection: \<open>forgotPassword\<close>, \<open>resetPassword\<close> and \<open>login\<close> keep them,
  \<open>register\<close> adds at most the fresh one, so they stay pairwise distinct.
\<close>

lemma handlers_keep_ids:
  "map uid (db (forgotPassword env s req)) = map uid s"
  "map uid (db (resetPassword env s req)) = map uid s"
  "map uid (db (login env s req)) = map uid s"
proof -
  show "map uid (db (forgotPassword env s req)) = map uid s"
    using forgotPassword_outcome [of env s req] forgotPassword_saved [of req _ env s]
      replace_first_ids by metis
  show "map uid (db (resetPassword env s req)) = map uid s"
  proof (rule disjE [OF resetPassword_outcome [of env s req]])
    assume "\<exists>m c. resetPassword env s req = failed s m c"
    then show ?thesis by (auto simp: failed_def)
  next
    assume "\<exists>u pw. nonempty (body_password req) = Some pw \<and> find_fault env = None \<and>
      save_fault env = None \<and>
      List.find (reset_query (params_token req) (date_now env)) s = Some u \<and>
      replace_first
        (u\<lparr>password := bcrypt_hash env pw 10, resetToken := None,
           resetTokenExpiration := None, updatedAt := save_time env\<rparr>) s =
        Some (db (resetPassword env s req)) \<and>
      effects (resetPassword env s req) = [Json 200 ''Password reset successful.'' NoData]"
    then show ?thesis using replace_first_ids by blast
  qed
  show "map uid (db (login env s req)) = map uid s" by (simp add: login_db)
qed

lemma register_keeps_ids_distinct:
  "distinct (map uid s) \<Longrightarrow> new_object_id env \<notin> uid ` set s \<Longrightarrow>
   distinct (map uid (db (register env s req)))"
  using register_db [of env s req] by auto

section \<open>The claims\<close>

text \<open>
  Claim C1. A user document persisted by \<open>register\<close> or \<open>resetPassword\<close> stores, in its
  \<open>password\<close> path, the result of \<open>bcrypt.hash\<close> on the submitted plaintext with cost 10,
  and not the plaintext; no other handler writes a password. For a request with password
  \<open>pw\<close>: \<open>register\<close> either leaves the collection as it is or appends one document whose
  password is the hash; \<open>resetPassword\<close> either leaves the collection as it is or changes only
  the document with the matched \<open>_id\<close>, whose password becomes the hash; \<open>forgotPassword\<close>
  stores no password that was not stored before, and \<open>login\<close> does not write. That the hash
  differs from the plaintext is a property of the hasher, assumed for \<open>pw\<close>.
\<close>

theorem stored_password_is_hash_not_plaintext:
  assumes "nonempty (body_password req) = Some pw"
    and "bcrypt_hash env pw 10 \<noteq> pw"
  shows "(db (register env s req) = s \<or>
          (\<exists>u. db (register env s req) = s @ [u] \<and>
             password u = bcrypt_hash env pw 10 \<and> password u \<noteq> pw)) \<and>
         (db (resetPassword env s req) = s \<or>
          (\<exists>u u'. List.find (reset_query (params_token req) (date_now env)) s = Some u \<and>
             List.find (\<lambda>v. uid v = uid u) (db (resetPassword env s req)) = Some u' \<and>
             filter (\<lambda>v. uid v \<noteq> uid u) (db (resetPassword env s req)) =
               filter (\<lambda>v. uid v \<noteq> uid u) s \<and>
             password u' = bcrypt_hash env pw 10 \<and> password u' \<noteq> pw)) \<and>
         set (map password (db (forgotPassword env s req))) \<subseteq> set (map password s) \<and>
         db (login env s req) = s"
proof -
  have reg: "db (register env s req) = s \<or>
          (\<exists>u. db (register env s req) = s @ [u] \<and>
             password u = bcrypt_hash env pw 10 \<and> password u \<noteq> pw)"
    using register_db [of env s req] assms by auto
  have rst: "db (resetPassword env s req) = s \<or>
          (\<exists>u u'. List.find (reset_query (params_token req) (date_now env)) s = Some u \<and>
             List.find (\<lambda>v. uid v = uid u) (db (resetPassword env s req)) = Some u' \<and>
             filter (\<lambda>v. uid v \<noteq> uid u) (db (resetPassword env s req)) =
               filter (\<lambda>v. uid v \<noteq> uid u) s \<and>
             password u' = bcrypt_hash env pw 10 \<and> password u' \<noteq> pw)"
  proof (rule disjE [OF resetPassword_outcome [of env s req]])
    assume "\<exists>m c. resetPassword env s req = failed s m c"
    then show ?thesis by (auto simp: failed_def)
  next
    assume "\<exists>u pw. nonempty (body_password req) = Some pw \<and> find_fault env = None \<and>
      save_fault env = None \<and>
      List.find (reset_query (params_token req) (date_now env)) s = Some u \<and>
      replace_first
        (u\<lparr>password := bcrypt_hash env pw 10, resetToken := None,
           resetTokenExpiration := None, updatedAt := save_time env\<rparr>) s =
        Some (db (resetPassword env s req)) \<and>
      effects (resetPassword env s req) = [Json 200 ''Password reset successful.'' NoData]"
    then obtain u where fnd: "List.find (reset_query (params_token req) (date_now env)) s = Some u"
      and rep: "replace_first
        (u\<lparr>password := bcrypt_hash env pw 10, resetToken := None,
           resetTokenExpiration := None, updatedAt := save_time env\<rparr>) s =
        Some (db (resetPassword env s req))"
      using assms(1) by auto
    let ?d = "u\<lparr>password := bcrypt_hash env pw 10, resetToken := None,
           resetTokenExpiration := None, updatedAt := save_time env\<rparr>"
    from replace_first_find [OF rep]
    have a: "List.find (\<lambda>v. uid v = uid u) (db (resetPassword env s req)) = Some ?d" by simp
    from replace_first_others [OF rep]
    have b: "filter (\<lambda>v. uid v \<noteq> uid u) (db (resetPassword env s req)) =
               filter (\<lambda>v. uid v \<noteq> uid u) s" by simp
    have c: "password ?d = bcrypt_hash env pw 10 \<and> password ?d \<noteq> pw" using assms(2) by simp
    from fnd a b c show ?thesis by blast
  qed
  from reg rst forgotPassword_passwords [of env s req] login_db [of env s req]
  show ?thesis by blast
qed

text \<open>
  At a concrete request: with one user holding a pending reset token, registering a second
  user and resetting the first user's password both change the collection, and the
  passwords they store are the hashes of \<open>P2\<close>.
\<close>

theorem stored_password_is_hash_not_plaintext_witness:
  "nonempty (body_password (request_of (Some ''B'') (Some ''b@x.com'') (Some ''P2'') ''tok'')) =
     Some ''P2'' \<and>
   bcrypt_hash (sample_env 2000 ''2'') ''P2'' 10 \<noteq> ''P2'' \<and>
   map password (db (register (sample_env 2000 ''2'') [pending_alice]
     (request_of (Some ''B'') (Some ''b@x.com'') (Some ''P2'') ''tok''))) =
     [''$2b$10$P1'', ''$2b$10$P2''] \<and>
   (\<exists>u. db (register (sample_env 2000 ''2'') [pending_alice]
           (request_of (Some ''B'') (Some ''b@x.com'') (Some ''P2'') ''tok'')) =
         [pending_alice] @ [u] \<and>
        password u = bcrypt_hash (sample_env 2000 ''2'') ''P2'' 10 \<and> password u \<noteq> ''P2'') \<and>
   map password (db (resetPassword (sample_env 2000 ''2'') [pending_alice]
     (request_of (Some ''B'') (Some ''b@x.com'') (Some ''P2'') ''tok''))) = [''$2b$10$P2''] \<and>
   db (login (sample_env 2000 ''2'') [pending_alice]
     (request_of (Some ''B'') (Some ''b@x.com'') (Some ''P2'') ''tok'')) = [pending_alice]"
proof -
  let ?E = "sample_env 2000 ''2''"
  let ?R = "request_of (Some ''B'') (Some ''b@x.com'') (Some ''P2'') ''tok''"
  have h1: "nonempty (body_password ?R) = Some ''P2''"
    by (simp add: request_of_def)
  have h2: "bcrypt_hash ?E ''P2'' 10 \<noteq> ''P2''"
    by (simp add: sample_env_def)
  have reg: "map password (db (register ?E [pending_alice] ?R)) = [''$2b$10$P1'', ''$2b$10$P2'']"
    by (simp add: register_def findOne_def save_new_def sample_env_def pending_alice_def
        alice_def request_of_def Let_def)
  then have changed: "db (register ?E [pending_alice] ?R) \<noteq> [pending_alice]"
    by auto
  have rst: "map password (db (resetPassword ?E [pending_alice] ?R)) = [''$2b$10$P2'']"
    by (simp add: resetPassword_def findOne_def save_existing_def stamp_def reset_query_def
        sample_env_def pending_alice_def alice_def request_of_def)
  from stored_password_is_hash_not_plaintext [OF h1 h2, of "[pending_alice]"] changed
  have "(\<exists>u. db (register ?E [pending_alice] ?R) = [pending_alice] @ [u] \<and>
        password u = bcrypt_hash ?E ''P2'' 10 \<and> password u \<noteq> ''P2'') \<and>
        db (login ?E [pending_alice] ?R) = [pending_alice]"
    by blast
  with h1 h2 reg rst show ?thesis by blast
qed

text \<open>
  Claim C2, as amended. When the lookup returns a user (the first stored user whose
  \<open>resetToken\<close> is the token parameter and whose \<open>resetTokenExpiration\<close> is later than
  \<open>Date.now()\<close>), the new password is not empty and the store does not reject the lookup or
  the save, \<open>resetPassword\<close> responds 200, and the stored document of that user has the hash
  of the new password and neither reset path; with a hasher whose \<open>compare\<close> accepts exactly
  the plaintext that was hashed, the new plaintext verifies against the stored hash and
  every other plaintext does not.
\<close>

theorem resetPassword_valid_token:
  assumes "nonempty (body_password req) = Some pw"
    and "find_fault env = None"
    and "save_fault env = None"
    and "List.find (reset_query (params_token req) (date_now env)) s = Some u"
    and "\<forall>p. bcrypt_compare env p (bcrypt_hash env pw 10) = (p = pw)"
    and "old \<noteq> pw"
  shows "effects (resetPassword env s req) = [Json 200 ''Password reset successful.'' NoData] \<and>
         (\<exists>u'. List.find (\<lambda>v. uid v = uid u) (db (resetPassword env s req)) = Some u' \<and>
            password u' = bcrypt_hash env pw 10 \<and> resetToken u' = None \<and>
            resetTokenExpiration u' = None \<and>
            bcrypt_compare env pw (password u') \<and> \<not> bcrypt_compare env old (password u'))"
proof -
  let ?d = "u\<lparr>password := bcrypt_hash env pw 10, resetToken := None,
           resetTokenExpiration := None, updatedAt := save_time env\<rparr>"
  from resetPassword_success [OF assms(1-4)]
  obtain s' where rep: "replace_first ?d s = Some s'"
    and r: "resetPassword env s req =
       \<lparr>db = s', effects = [Json 200 ''Password reset successful.'' NoData], mail = []\<rparr>"
    by auto
  from replace_first_find [OF rep] have "List.find (\<lambda>v. uid v = uid u) s' = Some ?d" by simp
  with r assms(5,6) show ?thesis by simp
qed

text \<open>
  At a concrete request: the stored hash is that of \<open>P1\<close>, the reset sets \<open>P2\<close>; afterwards
  \<open>P2\<close> verifies and \<open>P1\<close> does not.
\<close>

theorem resetPassword_valid_token_witness:
  "nonempty (body_password (request_of None None (Some ''P2'') ''tok'')) = Some ''P2'' \<and>
   find_fault (sample_env 2000 ''2'') = None \<and>
   save_fault (sample_env 2000 ''2'') = None \<and>
   List.find (reset_query (params_token (request_of None None (Some ''P2'') ''tok''))
       (date_now (sample_env 2000 ''2''))) [pending_alice] = Some pending_alice \<and>
   (\<forall>p. bcrypt_compare (sample_env 2000 ''2'') p (bcrypt_hash (sample_env 2000 ''2'') ''P2'' 10) =
      (p = ''P2'')) \<and>
   ''P1'' \<noteq> ''P2'' \<and>
   bcrypt_compare (sample_env 2000 ''2'') ''P1'' (password pending_alice) \<and>
   effects (resetPassword (sample_env 2000 ''2'') [pending_alice]
      (request_of None None (Some ''P2'') ''tok'')) =
     [Json 200 ''Password reset successful.'' NoData] \<and>
   (\<exists>u'. List.find (\<lambda>v. uid v = uid pending_alice)
            (db (resetPassword (sample_env 2000 ''2'') [pending_alice]
               (request_of None None (Some ''P2'') ''tok''))) = Some u' \<and>
      password u' = bcrypt_hash (sample_env 2000 ''2'') ''P2'' 10 \<and> resetToken u' = None \<and>
      resetTokenExpiration u' = None \<and>
      bcrypt_compare (sample_env 2000 ''2'') ''P2'' (password u') \<and>
      \<not> bcrypt_compare (sample_env 2000 ''2'') ''P1'' (password u'))"
proof -
  let ?E = "sample_env 2000 ''2''"
  let ?R = "request_of None None (Some ''P2'') ''tok''"
  have h1: "nonempty (body_password ?R) = Some ''P2''"
    by (simp add: request_of_def)
  have h2: "find_fault ?E = None" and h3: "save_fault ?E = None"
    by (simp_all add: sample_env_def)
  have h4: "List.find (reset_query (params_token ?R) (date_now ?E)) [pending_alice] =
      Some pending_alice"
    by (simp add: reset_query_def request_of_def sample_env_def pending_alice_def)
  have h5: "\<forall>p. bcrypt_compare ?E p (bcrypt_hash ?E ''P2'' 10) = (p = ''P2'')"
    by (auto simp: sample_env_def)
  have h6: "''P1'' \<noteq> ''P2''" by simp
  have h7: "bcrypt_compare ?E ''P1'' (password pending_alice)"
    by (simp add: sample_env_def pending_alice_def alice_def)
  from resetPassword_valid_token [OF h1 h2 h3 h4 h5 h6] h1 h2 h3 h4 h5 h6 h7
  show ?thesis by blast
qed

text \<open>
  The claim as stated fails when the new password is the old one: the reset succeeds and the
  old plaintext \<open>P1\<close> still verifies against the stored hash.
\<close>

theorem resetPassword_same_password_still_verifies:
  "bcrypt_compare (sample_env 2000 ''2'') ''P1'' (password pending_alice) \<and>
   effects (resetPassword (sample_env 2000 ''2'') [pending_alice]
      (request_of None None (Some ''P1'') ''tok'')) =
     [Json 200 ''Password reset successful.'' NoData] \<and>
   map (\<lambda>v. bcrypt_compare (sample_env 2000 ''2'') ''P1'' (password v))
     (db (resetPassword (sample_env 2000 ''2'') [pending_alice]
        (request_of None None (Some ''P1'') ''tok''))) = [True]"
  by (simp add: resetPassword_def findOne_def save_existing_def stamp_def reset_query_def
      sample_env_def pending_alice_def alice_def request_of_def)

text \<open>
  Claim C3, as amended. A user document has one \<open>resetToken\<close> path, and a second
  \<open>forgotPassword\<close> request for the same email overwrites it and \<open>resetTokenExpiration\<close>. In
  a collection with unique \<open>_id\<close>s, if the second token differs from the first and no other
  document carries the first token, a later \<open>resetPassword\<close> with the first token finds no
  document and fails with 404 without changing the collection, at whatever time it arrives,
  so also before the first expiration.
\<close>

theorem second_forgotPassword_overwrites_token:
  assumes "distinct (map uid s)"
    and "nonempty (body_email req1) = Some e"
    and "nonempty (body_email req2) = Some e"
    and "find_fault env1 = None" and "save_fault env1 = None"
    and "find_fault env2 = None" and "save_fault env2 = None"
    and "find_fault env3 = None"
    and "List.find (\<lambda>v. email v = e) s = Some u"
    and "jwt_sign env2 (EmailClaim e) (JWT_SECRET env2) ''30m'' \<noteq>
         jwt_sign env1 (EmailClaim e) (JWT_SECRET env1) ''30m''"
    and "\<forall>v \<in> set s. uid v \<noteq> uid u \<longrightarrow>
           resetToken v \<noteq> Some (jwt_sign env1 (EmailClaim e) (JWT_SECRET env1) ''30m'')"
    and "params_token req3 = jwt_sign env1 (EmailClaim e) (JWT_SECRET env1) ''30m''"
    and "nonempty (body_password req3) = Some pw"
  shows "(\<exists>u1. List.find (\<lambda>v. uid v = uid u) (db (forgotPassword env1 s req1)) = Some u1 \<and>
            resetToken u1 = Some (jwt_sign env1 (EmailClaim e) (JWT_SECRET env1) ''30m'') \<and>
            resetTokenExpiration u1 = Some (date_now env1 + 18000000)) \<and>
         (\<exists>u2. List.find (\<lambda>v. uid v = uid u)
                  (db (forgotPassword env2 (db (forgotPassword env1 s req1)) req2)) = Some u2 \<and>
            resetToken u2 = Some (jwt_sign env2 (EmailClaim e) (JWT_SECRET env2) ''30m'') \<and>
            resetTokenExpiration u2 = Some (date_now env2 + 18000000)) \<and>
         effects (resetPassword env3
                    (db (forgotPassword env2 (db (forgotPassword env1 s req1)) req2)) req3) =
           [Next_error ''Password reset token expired or invalid.'' 404] \<and>
         db (resetPassword env3
               (db (forgotPassword env2 (db (forgotPassword env1 s req1)) req2)) req3) =
           db (forgotPassword env2 (db (forgotPassword env1 s req1)) req2)"
proof -
  let ?t1 = "jwt_sign env1 (EmailClaim e) (JWT_SECRET env1) ''30m''"
  let ?t2 = "jwt_sign env2 (EmailClaim e) (JWT_SECRET env2) ''30m''"
  let ?d1 = "stamp env1 u
     (u\<lparr>resetToken := Some ?t1, resetTokenExpiration := Some (date_now env1 + 18000000)\<rparr>)"
  let ?d2 = "stamp env2 ?d1
     (?d1\<lparr>resetToken := Some ?t2, resetTokenExpiration := Some (date_now env2 + 18000000)\<rparr>)"
  let ?s1 = "db (forgotPassword env1 s req1)"
  let ?s2 = "db (forgotPassword env2 ?s1 req2)"
  from assms(9) have em: "email u = e"
    using find_in_set by fastforce
  have id1: "uid ?d1 = uid u" and em1: "email ?d1 = e"
    using em by (simp_all add: stamp_fields)
  have id2: "uid ?d2 = uid u" by (simp add: stamp_fields)
  have s1: "?s1 = map (\<lambda>v. if uid v = uid u then ?d1 else v) s"
    by (rule forgotPassword_db_distinct [OF assms(1,2,4,5,9)])
  have dist1: "distinct (map uid ?s1)"
    using assms(1) by (simp add: handlers_keep_ids)
  have fnd1: "List.find (\<lambda>v. email v = e) ?s1 = Some ?d1"
    unfolding s1 by (rule find_map_replace [OF assms(1,9) em1 id1])
  have s2: "?s2 = map (\<lambda>v. if uid v = uid ?d1 then ?d2 else v) ?s1"
    by (rule forgotPassword_db_distinct [OF dist1 assms(3,6,7) fnd1])
  have in_s2: "\<forall>v \<in> set ?s2. v = ?d2 \<or> (v \<in> set s \<and> uid v \<noteq> uid u)"
    unfolding s2 unfolding s1 using id1 by auto
  have tok2: "resetToken ?d2 = Some ?t2" by (simp add: stamp_fields)
  have "\<forall>v \<in> set ?s2. resetToken v \<noteq> Some ?t1"
  proof
    fix v assume "v \<in> set ?s2"
    with in_s2 have "v = ?d2 \<or> (v \<in> set s \<and> uid v \<noteq> uid u)" by blast
    then show "resetToken v \<noteq> Some ?t1"
    proof
      assume "v = ?d2"
      with tok2 assms(10) show ?thesis by simp
    next
      assume "v \<in> set s \<and> uid v \<noteq> uid u"
      with assms(11) show ?thesis by blast
    qed
  qed
  then have nomatch: "\<forall>v \<in> set ?s2. \<not> reset_query (params_token req3) (date_now env3) v"
    using assms(12) by (simp add: reset_query_def)
  have fail: "resetPassword env3 ?s2 req3 =
      failed ?s2 ''Password reset token expired or invalid.'' 404"
    by (rule resetPassword_no_match [OF assms(13,8) nomatch])
  have byid1: "List.find (\<lambda>v. uid v = uid u) ?s1 = Some ?d1"
    using replace_first_find [OF forgotPassword_saved [OF assms(2,4,5,9)]] id1 by simp
  have byid2: "List.find (\<lambda>v. uid v = uid u) ?s2 = Some ?d2"
    using replace_first_find [OF forgotPassword_saved [OF assms(3,6,7) fnd1]] id2 by simp
  have f1: "resetToken ?d1 = Some ?t1 \<and> resetTokenExpiration ?d1 = Some (date_now env1 + 18000000)"
    by (simp add: stamp_fields)
  have f2: "resetToken ?d2 = Some ?t2 \<and> resetTokenExpiration ?d2 = Some (date_now env2 + 18000000)"
    by (simp add: stamp_fields)
  from byid1 f1 byid2 f2 fail show ?thesis by (simp add: failed_def)
qed

text \<open>
  At concrete requests: tokens signed at seconds 1 and 2 differ; the reset with the first
  token arrives at 3000 ms, long before the first expiration at 18001000 ms, and fails.
\<close>

theorem second_forgotPassword_overwrites_token_witness:
  "distinct (map uid [alice]) \<and>
   nonempty (body_email (request_of None (Some ''a@x.com'') None [])) = Some ''a@x.com'' \<and>
   find_fault (sample_env 1000 ''1'') = None \<and> save_fault (sample_env 1000 ''1'') = None \<and>
   find_fault (sample_env 2000 ''2'') = None \<and> save_fault (sample_env 2000 ''2'') = None \<and>
   find_fault (sample_env 3000 ''3'') = None \<and>
   List.find (\<lambda>v. email v = ''a@x.com'') [alice] = Some alice \<and>
   jwt_sign (sample_env 1000 ''1'') (EmailClaim ''a@x.com'') (JWT_SECRET (sample_env 1000 ''1''))
     ''30m'' = ''email=a@x.com;iat=1;exp=30m'' \<and>
   jwt_sign (sample_env 2000 ''2'') (EmailClaim ''a@x.com'') (JWT_SECRET (sample_env 2000 ''2''))
     ''30m'' = ''email=a@x.com;iat=2;exp=30m'' \<and>
   filter (\<lambda>v. uid v \<noteq> uid alice) [alice] = [] \<and>
   params_token (request_of None None (Some ''P2'') ''email=a@x.com;iat=1;exp=30m'') =
     ''email=a@x.com;iat=1;exp=30m'' \<and>
   nonempty (body_password (request_of None None (Some ''P2'') ''email=a@x.com;iat=1;exp=30m'')) =
     Some ''P2'' \<and>
   date_now (sample_env 3000 ''3'') < date_now (sample_env 1000 ''1'') + 18000000 \<and>
   effects (resetPassword (sample_env 3000 ''3'')
      (db (forgotPassword (sample_env 2000 ''2'')
         (db (forgotPassword (sample_env 1000 ''1'') [alice]
            (request_of None (Some ''a@x.com'') None [])))
         (request_of None (Some ''a@x.com'') None [])))
      (request_of None None (Some ''P2'') ''email=a@x.com;iat=1;exp=30m'')) =
     [Next_error ''Password reset token expired or invalid.'' 404]"
proof -
  let ?E1 = "sample_env 1000 ''1''"
  let ?E2 = "sample_env 2000 ''2''"
  let ?E3 = "sample_env 3000 ''3''"
  let ?R = "request_of None (Some ''a@x.com'') None []"
  let ?R3 = "request_of None None (Some ''P2'') ''email=a@x.com;iat=1;exp=30m''"
  have h1: "distinct (map uid [alice])" by simp
  have h2: "nonempty (body_email ?R) = Some ''a@x.com''" by (simp add: request_of_def)
  have h4: "find_fault ?E1 = None" and h5: "save_fault ?E1 = None"
    and h6: "find_fault ?E2 = None" and h7: "save_fault ?E2 = None"
    and h8: "find_fault ?E3 = None"
    by (simp_all add: sample_env_def)
  have h9: "List.find (\<lambda>v. email v = ''a@x.com'') [alice] = Some alice"
    by (simp add: alice_def)
  have t1: "jwt_sign ?E1 (EmailClaim ''a@x.com'') (JWT_SECRET ?E1) ''30m'' =
      ''email=a@x.com;iat=1;exp=30m''"
    by (simp add: sample_env_def)
  have t2: "jwt_sign ?E2 (EmailClaim ''a@x.com'') (JWT_SECRET ?E2) ''30m'' =
      ''email=a@x.com;iat=2;exp=30m''"
    by (simp add: sample_env_def)
  have h10: "jwt_sign ?E2 (EmailClaim ''a@x.com'') (JWT_SECRET ?E2) ''30m'' \<noteq>
      jwt_sign ?E1 (EmailClaim ''a@x.com'') (JWT_SECRET ?E1) ''30m''"
    unfolding t1 t2 by simp
  have h11': "filter (\<lambda>v. uid v \<noteq> uid alice) [alice] = []"
    by simp
  have h11: "\<forall>v \<in> set [alice]. uid v \<noteq> uid alice \<longrightarrow>
      resetToken v \<noteq> Some (jwt_sign ?E1 (EmailClaim ''a@x.com'') (JWT_SECRET ?E1) ''30m'')"
    by simp
  have h12': "params_token ?R3 = ''email=a@x.com;iat=1;exp=30m''"
    by (simp add: request_of_def)
  then have h12: "params_token ?R3 =
      jwt_sign ?E1 (EmailClaim ''a@x.com'') (JWT_SECRET ?E1) ''30m''"
    unfolding t1 .
  have h13: "nonempty (body_password ?R3) = Some ''P2''" by (simp add: request_of_def)
  have h14: "date_now ?E3 < date_now ?E1 + 18000000" by (simp add: sample_env_def)
  from second_forgotPassword_overwrites_token
    [OF h1 h2 h2 h4 h5 h6 h7 h8 h9 h10 h11 h12 h13]
  have "effects (resetPassword ?E3 (db (forgotPassword ?E2 (db (forgotPassword ?E1 [alice] ?R)) ?R))
      ?R3) = [Next_error ''Password reset token expired or invalid.'' 404]"
    by blast
  with h1 h2 h4 h5 h6 h7 h8 h9 t1 t2 h11' h12' h13 h14 show ?thesis by blast
qed

text \<open>
  The claim as stated fails when the second request is signed within the same second as the
  first: the signer returns the same token, the overwrite stores what was stored, and the
  reset carrying the first token succeeds.
\<close>

theorem first_token_accepted_after_identical_reissue:
  "map resetToken (db (forgotPassword (sample_env 1000 ''1'') [alice]
       (request_of None (Some ''a@x.com'') None []))) =
     [Some ''email=a@x.com;iat=1;exp=30m''] \<and>
   effects (resetPassword (sample_env 2000 ''2'')
      (db (forgotPassword (sample_env 1500 ''1'')
         (db (forgotPassword (sample_env 1000 ''1'') [alice]
            (request_of None (Some ''a@x.com'') None [])))
         (request_of None (Some ''a@x.com'') None [])))
      (request_of None None (Some ''P2'') ''email=a@x.com;iat=1;exp=30m'')) =
     [Json 200 ''Password reset successful.'' NoData]"
  by (simp add: forgotPassword_def resetPassword_def findOne_def save_existing_def stamp_def
      emailService_def reset_query_def sample_env_def alice_def request_of_def Let_def)

text \<open>
  Claim C4. A login with non-empty email and password for an email no stored user has
  should fail with 400 (``User not registered...'') and stop there. The handler does call
  \<open>next\<close> with that error, but without returning: it goes on to the password comparison,
  where reading \<open>password\<close> of \<open>null\<close> throws, and the \<open>catch\<close> block calls \<open>next\<close> a second
  time, with status 500.
\<close>

theorem login_unknown_email_calls_next_twice:
  "effects (login (sample_env 1000 ''1'') [alice]
      (request_of None (Some ''nobody@x.com'') (Some ''P1'') [])) =
   [Next_error
      ''User not registered. Please create account using register and login again.'' 400,
    Next_error ''Cannot read properties of null (reading 'password')'' 500]"
  by (simp add: login_def findOne_def sample_env_def alice_def request_of_def
      null_password_message_def)

text \<open>
  Claim C5. A \<open>resetPassword\<close> request with a non-empty password whose token is the
  \<open>resetToken\<close> of no stored user, or only of users whose \<open>resetTokenExpiration\<close> is not later
  than \<open>Date.now()\<close>, fails with 404 ``Password reset token expired or invalid.'' once the
  lookup has answered, and leaves the collection as it was.
\<close>

theorem resetPassword_invalid_token_rejected:
  assumes "nonempty (body_password req) = Some pw"
    and "find_fault env = None"
    and "\<forall>u \<in> set s. resetToken u = Some (params_token req) \<longrightarrow>
           (\<forall>t. resetTokenExpiration u = Some t \<longrightarrow> t \<le> date_now env)"
  shows "effects (resetPassword env s req) =
           [Next_error ''Password reset token expired or invalid.'' 404] \<and>
         db (resetPassword env s req) = s \<and> mail (resetPassword env s req) = []"
proof -
  have "\<forall>u \<in> set s. \<not> reset_query (params_token req) (date_now env) u"
    using assms(3) by (auto simp: reset_query_def split: option.splits)
  from resetPassword_no_match [OF assms(1,2) this] show ?thesis
    by (simp add: failed_def)
qed

text \<open>
  At a concrete request: the token matches a user whose expiration equals the current time,
  so it is not strictly later, and the reset is refused.
\<close>

theorem resetPassword_invalid_token_rejected_witness:
  "nonempty (body_password (request_of None None (Some ''P2'') ''tok'')) = Some ''P2'' \<and>
   find_fault (sample_env 1000 ''1'') = None \<and>
   resetToken expired_alice = Some (params_token (request_of None None (Some ''P2'') ''tok'')) \<and>
   resetTokenExpiration expired_alice = Some (date_now (sample_env 1000 ''1'')) \<and>
   effects (resetPassword (sample_env 1000 ''1'') [expired_alice]
      (request_of None None (Some ''P2'') ''tok'')) =
     [Next_error ''Password reset token expired or invalid.'' 404] \<and>
   db (resetPassword (sample_env 1000 ''1'') [expired_alice]
      (request_of None None (Some ''P2'') ''tok'')) = [expired_alice] \<and>
   mail (resetPassword (sample_env 1000 ''1'') [expired_alice]
      (request_of None None (Some ''P2'') ''tok'')) = []"
proof -
  let ?E = "sample_env 1000 ''1''"
  let ?R = "request_of None None (Some ''P2'') ''tok''"
  have h1: "nonempty (body_password ?R) = Some ''P2''"
    by (simp add: request_of_def)
  have h2: "find_fault ?E = None"
    by (simp add: sample_env_def)
  have h3: "\<forall>u \<in> set [expired_alice]. resetToken u = Some (params_token ?R) \<longrightarrow>
      (\<forall>t. resetTokenExpiration u = Some t \<longrightarrow> t \<le> date_now ?E)"
    by (simp add: expired_alice_def sample_env_def)
  have h4: "resetToken expired_alice = Some (params_token ?R)"
    by (simp add: expired_alice_def request_of_def)
  have h5: "resetTokenExpiration expired_alice = Some (date_now ?E)"
    by (simp add: expired_alice_def sample_env_def)
  from resetPassword_invalid_token_rejected [OF h1 h2 h3] h1 h2 h4 h5 show ?thesis by blast
qed

text \<open>
  Claim C6. When \<open>forgotPassword\<close> finds a user for the email and the save succeeds, the
  stored document of that user has \<open>resetTokenExpiration\<close> equal to \<open>Date.now()\<close> of the
  request plus 18000000 ms, which is five hours, and its \<open>resetToken\<close> is what \<open>jwt.sign\<close>
  returned for the claim \<open>{email}\<close> of that user with \<open>expiresIn: "30m"\<close>.
\<close>

theorem forgotPassword_expiration_five_hours:
  assumes "nonempty (body_email req) = Some e"
    and "find_fault env = None"
    and "List.find (\<lambda>v. email v = e) s = Some u"
    and "save_fault env = None"
  shows "\<exists>u'. List.find (\<lambda>v. uid v = uid u) (db (forgotPassword env s req)) = Some u' \<and>
           email u' = e \<and>
           resetTokenExpiration u' = Some (date_now env + 18000000) \<and>
           (18000000 :: int) = 5 * 60 * 60 * 1000 \<and>
           resetToken u' = Some (jwt_sign env (EmailClaim (email u)) (JWT_SECRET env) ''30m'')"
proof -
  let ?d = "stamp env u
     (u\<lparr>resetToken := Some (jwt_sign env (EmailClaim e) (JWT_SECRET env) ''30m''),
        resetTokenExpiration := Some (date_now env + 18000000)\<rparr>)"
  from assms(3) have em: "email u = e" using find_in_set by fastforce
  from replace_first_find [OF forgotPassword_saved [OF assms(1,2,4,3)]]
  have "List.find (\<lambda>v. uid v = uid u) (db (forgotPassword env s req)) = Some ?d"
    by (simp add: stamp_fields)
  with em show ?thesis by (simp add: stamp_fields)
qed

text \<open>At a concrete request at time 1000 ms the stored expiration is 18001000 ms.\<close>

theorem forgotPassword_expiration_five_hours_witness:
  "nonempty (body_email (request_of None (Some ''a@x.com'') None [])) = Some ''a@x.com'' \<and>
   find_fault (sample_env 1000 ''1'') = None \<and>
   List.find (\<lambda>v. email v = ''a@x.com'') [alice] = Some alice \<and>
   save_fault (sample_env 1000 ''1'') = None \<and>
   map resetTokenExpiration (db (forgotPassword (sample_env 1000 ''1'') [alice]
      (request_of None (Some ''a@x.com'') None []))) = [Some 18001000] \<and>
   (\<exists>u'. List.find (\<lambda>v. uid v = uid alice)
            (db (forgotPassword (sample_env 1000 ''1'') [alice]
               (request_of None (Some ''a@x.com'') None []))) = Some u' \<and>
      email u' = ''a@x.com'' \<and>
      resetTokenExpiration u' = Some (date_now (sample_env 1000 ''1'') + 18000000) \<and>
      (18000000 :: int) = 5 * 60 * 60 * 1000 \<and>
      resetToken u' = Some (jwt_sign (sample_env 1000 ''1'') (EmailClaim (email alice))
         (JWT_SECRET (sample_env 1000 ''1'')) ''30m''))"
proof -
  let ?E = "sample_env 1000 ''1''"
  let ?R = "request_of None (Some ''a@x.com'') None []"
  have h1: "nonempty (body_email ?R) = Some ''a@x.com''" by (simp add: request_of_def)
  have h2: "find_fault ?E = None" and h4: "save_fault ?E = None"
    by (simp_all add: sample_env_def)
  have h3: "List.find (\<lambda>v. email v = ''a@x.com'') [alice] = Some alice"
    by (simp add: alice_def)
  have ev: "map resetTokenExpiration (db (forgotPassword ?E [alice] ?R)) = [Some 18001000]"
    by (simp add: forgotPassword_def findOne_def save_existing_def stamp_def emailService_def
        sample_env_def alice_def request_of_def Let_def)
  from forgotPassword_expiration_five_hours [OF h1 h2 h3 h4] h1 h2 h3 h4 ev
  show ?thesis by blast
qed

text \<open>
  Claim C7. A \<open>register\<close> request with non-empty name, email and password, for an email
  some stored user already has, fails with 400 and the duplicate-user message once the
  lookup has answered, whatever the other fields are, and adds no document.
\<close>

theorem register_duplicate_email_rejected:
  assumes "nonempty (body_name req) = Some n"
    and "nonempty (body_email req) = Some e"
    and "nonempty (body_password req) = Some pw"
    and "find_fault env = None"
    and "\<exists>u \<in> set s. email u = e"
  shows "effects (register env s req) =
           [Next_error ''User already registered. Please use login for process.'' 400] \<and>
         db (register env s req) = s \<and> mail (register env s req) = []"
proof -
  from assms(5) obtain u where "List.find (\<lambda>u. email u = e) s = Some u"
    by (cases "List.find (\<lambda>u. email u = e) s") (auto simp: find_None_iff)
  with assms(1-4) show ?thesis
    by (simp add: register_def findOne_def failed_def)
qed

text \<open>At a concrete request: a second registration for the email of the stored user.\<close>

theorem register_duplicate_email_rejected_witness:
  "nonempty (body_name (request_of (Some ''Mallory'') (Some ''a@x.com'') (Some ''P9'') [])) =
     Some ''Mallory'' \<and>
   nonempty (body_email (request_of (Some ''Mallory'') (Some ''a@x.com'') (Some ''P9'') [])) =
     Some ''a@x.com'' \<and>
   nonempty (body_password (request_of (Some ''Mallory'') (Some ''a@x.com'') (Some ''P9'') [])) =
     Some ''P9'' \<and>
   find_fault (sample_env 1000 ''1'') = None \<and>
   (\<exists>u \<in> set [alice]. email u = ''a@x.com'') \<and>
   effects (register (sample_env 1000 ''1'') [alice]
      (request_of (Some ''Mallory'') (Some ''a@x.com'') (Some ''P9'') [])) =
     [Next_error ''User already registered. Please use login for process.'' 400] \<and>
   db (register (sample_env 1000 ''1'') [alice]
      (request_of (Some ''Mallory'') (Some ''a@x.com'') (Some ''P9'') [])) = [alice] \<and>
   mail (register (sample_env 1000 ''1'') [alice]
      (request_of (Some ''Mallory'') (Some ''a@x.com'') (Some ''P9'') [])) = []"
proof -
  let ?E = "sample_env 1000 ''1''"
  let ?R = "request_of (Some ''Mallory'') (Some ''a@x.com'') (Some ''P9'') []"
  have h1: "nonempty (body_name ?R) = Some ''Mallory''"
    and h2: "nonempty (body_email ?R) = Some ''a@x.com''"
    and h3: "nonempty (body_password ?R) = Some ''P9''"
    by (simp_all add: request_of_def)
  have h4: "find_fault ?E = None" by (simp add: sample_env_def)
  have h5: "\<exists>u \<in> set [alice]. email u = ''a@x.com''" by (simp add: alice_def)
  from register_duplicate_email_rejected [OF h1 h2 h3 h4 h5] h1 h2 h3 h4 h5
  show ?thesis by blast
qed

text \<open>
  Claim C8. On the success path of \<open>forgotPassword\<close> (non-empty email, a user found, the
  save and the mail dispatch succeeding) the handler stores the reset token and hands the
  mail to the mail service, and calls neither a method of \<open>res\<close> nor \<open>next\<close>: no response
  is sent.
\<close>

theorem forgotPassword_success_sends_no_response:
  assumes "nonempty (body_email req) = Some e"
    and "find_fault env = None"
    and "List.find (\<lambda>v. email v = e) s = Some u"
    and "save_fault env = None"
    and "email_fault env = None"
  shows "effects (forgotPassword env s req) = [] \<and>
         mail (forgotPassword env s req) =
           [(e, ''Password reset for Financial Tracker'',
             reset_mail_html (headers_host req)
               (jwt_sign env (EmailClaim e) (JWT_SECRET env) ''30m''))] \<and>
         (\<exists>u'. List.find (\<lambda>v. uid v = uid u) (db (forgotPassword env s req)) = Some u' \<and>
               resetToken u' = Some (jwt_sign env (EmailClaim e) (JWT_SECRET env) ''30m''))"
proof -
  let ?d = "stamp env u
     (u\<lparr>resetToken := Some (jwt_sign env (EmailClaim e) (JWT_SECRET env) ''30m''),
        resetTokenExpiration := Some (date_now env + 18000000)\<rparr>)"
  from forgotPassword_found [OF assms(1,2,4,3)] assms(5)
  obtain s' where s': "replace_first ?d s = Some s'"
    and r: "forgotPassword env s req =
       \<lparr>db = s', effects = [],
        mail = [(e, ''Password reset for Financial Tracker'',
                 reset_mail_html (headers_host req)
                   (jwt_sign env (EmailClaim e) (JWT_SECRET env) ''30m''))]\<rparr>"
    by auto
  from replace_first_find [OF s'] have "List.find (\<lambda>v. uid v = uid u) s' = Some ?d"
    by (simp add: stamp_fields)
  with r show ?thesis by (simp add: stamp_fields)
qed

text \<open>At a concrete request: the token is stored, one mail goes out, nothing is answered.\<close>

theorem forgotPassword_success_sends_no_response_witness:
  "nonempty (body_email (request_of None (Some ''a@x.com'') None [])) = Some ''a@x.com'' \<and>
   find_fault (sample_env 1000 ''1'') = None \<and>
   List.find (\<lambda>v. email v = ''a@x.com'') [alice] = Some alice \<and>
   save_fault (sample_env 1000 ''1'') = None \<and>
   email_fault (sample_env 1000 ''1'') = None \<and>
   map resetToken (db (forgotPassword (sample_env 1000 ''1'') [alice]
      (request_of None (Some ''a@x.com'') None []))) = [Some ''email=a@x.com;iat=1;exp=30m''] \<and>
   effects (forgotPassword (sample_env 1000 ''1'') [alice]
      (request_of None (Some ''a@x.com'') None [])) = [] \<and>
   mail (forgotPassword (sample_env 1000 ''1'') [alice]
      (request_of None (Some ''a@x.com'') None [])) =
     [(''a@x.com'', ''Password reset for Financial Tracker'',
       reset_mail_html (headers_host (request_of None (Some ''a@x.com'') None []))
         (jwt_sign (sample_env 1000 ''1'') (EmailClaim ''a@x.com'')
            (JWT_SECRET (sample_env 1000 ''1'')) ''30m''))]"
proof -
  let ?E = "sample_env 1000 ''1''"
  let ?R = "request_of None (Some ''a@x.com'') None []"
  have h1: "nonempty (body_email ?R) = Some ''a@x.com''" by (simp add: request_of_def)
  have h2: "find_fault ?E = None" and h4: "save_fault ?E = None"
    and h5: "email_fault ?E = None"
    by (simp_all add: sample_env_def)
  have h3: "List.find (\<lambda>v. email v = ''a@x.com'') [alice] = Some alice"
    by (simp add: alice_def)
  have ev: "map resetToken (db (forgotPassword ?E [alice] ?R)) =
      [Some ''email=a@x.com;iat=1;exp=30m'']"
    by (simp add: forgotPassword_def findOne_def save_existing_def stamp_def emailService_def
        sample_env_def alice_def request_of_def Let_def)
  from forgotPassword_success_sends_no_response [OF h1 h2 h3 h4 h5] h1 h2 h3 h4 h5 ev
  show ?thesis by blast
qed

text \<open>
  Claim C9. On the admin-only routes \<open>GET /users\<close> and \<open>DELETE /user/:id\<close>, when the token
  middleware has let the request through and the role it attached is not in the allow-list
  \<open>["admin"]\<close> (or it attached no user), the role guard calls \<open>next\<close> with the 401 error and
  the chain ends there: the outcome is the same for every handler, with the state as the
  token middleware left it, so the handler of the route is not called.
\<close>

theorem admin_routes_reject_other_roles:
  assumes "(m, p) = (GET, ''/users'') \<or> (m, p) = (DELETE, ''/user/:id'')"
    and "validateToken req st = Proceed req' st'"
    and "\<forall>usr. req_user req' = Some usr \<longrightarrow> auth_role usr \<notin> set [''admin'']"
  shows "serve (router validateToken getUsers getUserByID updateUser deleteUser) m p req st =
         Rejected
           ''You are unauthorized for this action. Please contact system administration.''
           401 st'"
proof -
  have guard: "authorizationRoles [''admin''] req' st' =
      Rejected
        ''You are unauthorized for this action. Please contact system administration.''
        401 st'"
    using assms(3) by (auto simp: authorizationRoles_def split: option.splits)
  from assms(1) show ?thesis
  proof
    assume "(m, p) = (GET, ''/users'')"
    then show ?thesis using assms(2) guard by (simp add: serve_def router_def)
  next
    assume "(m, p) = (DELETE, ''/user/:id'')"
    then show ?thesis using assms(2) guard by (simp add: serve_def router_def)
  qed
qed

text \<open>
  At a concrete request: a user of role \<open>user\<close> asks for \<open>DELETE /user/:id\<close>; the handler
  would count its call in the state, and the state is still 0.
\<close>

theorem admin_routes_reject_other_roles_witness:
  "((DELETE, ''/user/:id'') = (GET, ''/users'') \<or>
    (DELETE, ''/user/:id'') = (DELETE, ''/user/:id'')) \<and>
   sample_validateToken (request_of None None None []) 0 =
     Proceed ((request_of None None None [])
                \<lparr>req_user := Some \<lparr>auth_id = ''u1'', auth_role = ''user''\<rparr>\<rparr>) 0 \<and>
   ''user'' \<notin> set [''admin''] \<and>
   serve (router sample_validateToken counting_handler counting_handler counting_handler
            counting_handler) DELETE ''/user/:id'' (request_of None None None []) 0 =
     Rejected ''You are unauthorized for this action. Please contact system administration.''
       401 0"
proof -
  let ?R = "request_of None None None []"
  let ?R' = "?R\<lparr>req_user := Some \<lparr>auth_id = ''u1'', auth_role = ''user''\<rparr>\<rparr>"
  have h1: "(DELETE, ''/user/:id'') = (GET, ''/users'') \<or>
      (DELETE, ''/user/:id'') = (DELETE, ''/user/:id'')" by simp
  have h2: "sample_validateToken ?R 0 = Proceed ?R' 0"
    by (simp add: sample_validateToken_def)
  have h3: "\<forall>usr. req_user ?R' = Some usr \<longrightarrow> auth_role usr \<notin> set [''admin'']"
    by auto
  have h4: "''user'' \<notin> set [''admin'']" by simp
  from admin_routes_reject_other_roles
    [where validateToken = sample_validateToken and req = ?R and st = "0::nat"
       and getUsers = counting_handler and getUserByID = counting_handler
       and updateUser = counting_handler and deleteUser = counting_handler,
     OF h1 h2 h3] h1 h2 h4
  show ?thesis by blast
qed

text \<open>
  Claim C10, as amended. On every successful \<open>resetPassword\<close> the stored document of the
  matched user differs from the matched one only in \<open>password\<close>, \<open>resetToken\<close>,
  \<open>resetTokenExpiration\<close> and the \<open>updatedAt\<close> timestamp, which the store sets to the time of
  the save; \<open>_id\<close>, \<open>name\<close>, \<open>email\<close>, \<open>role\<close>, \<open>balance\<close> and \<open>createdAt\<close> are unchanged.
\<close>

theorem resetPassword_keeps_other_fields:
  assumes "effects (resetPassword env s req) = [Json 200 ''Password reset successful.'' NoData]"
  shows "\<exists>u u'. List.find (reset_query (params_token req) (date_now env)) s = Some u \<and>
           List.find (\<lambda>v. uid v = uid u) (db (resetPassword env s req)) = Some u' \<and>
           u' = u\<lparr>password := password u', resetToken := None,
                  resetTokenExpiration := None, updatedAt := save_time env\<rparr> \<and>
           uid u' = uid u \<and> name u' = name u \<and> email u' = email u \<and> role u' = role u \<and>
           balance u' = balance u \<and> createdAt u' = createdAt u"
proof (rule disjE [OF resetPassword_outcome [of env s req]])
  assume "\<exists>m c. resetPassword env s req = failed s m c"
  with assms show ?thesis by (auto simp: failed_def)
next
  assume "\<exists>u pw. nonempty (body_password req) = Some pw \<and> find_fault env = None \<and>
      save_fault env = None \<and>
      List.find (reset_query (params_token req) (date_now env)) s = Some u \<and>
      replace_first
        (u\<lparr>password := bcrypt_hash env pw 10, resetToken := None,
           resetTokenExpiration := None, updatedAt := save_time env\<rparr>) s =
        Some (db (resetPassword env s req)) \<and>
      effects (resetPassword env s req) = [Json 200 ''Password reset successful.'' NoData]"
  then obtain u pw where fnd: "List.find (reset_query (params_token req) (date_now env)) s = Some u"
    and rep: "replace_first
        (u\<lparr>password := bcrypt_hash env pw 10, resetToken := None,
           resetTokenExpiration := None, updatedAt := save_time env\<rparr>) s =
        Some (db (resetPassword env s req))"
    by auto
  let ?d = "u\<lparr>password := bcrypt_hash env pw 10, resetToken := None,
           resetTokenExpiration := None, updatedAt := save_time env\<rparr>"
  from replace_first_find [OF rep]
  have a: "List.find (\<lambda>v. uid v = uid u) (db (resetPassword env s req)) = Some ?d" by simp
  have b: "?d = u\<lparr>password := password ?d, resetToken := None,
                  resetTokenExpiration := None, updatedAt := save_time env\<rparr>" by simp
  have c: "uid ?d = uid u \<and> name ?d = name u \<and> email ?d = email u \<and> role ?d = role u \<and>
           balance ?d = balance u \<and> createdAt ?d = createdAt u" by simp
  from fnd a b c show ?thesis by blast
qed

text \<open>At a concrete successful reset.\<close>

theorem resetPassword_keeps_other_fields_witness:
  "effects (resetPassword (sample_env 2000 ''2'') [pending_alice]
      (request_of None None (Some ''P2'') ''tok'')) =
     [Json 200 ''Password reset successful.'' NoData] \<and>
   (\<exists>u u'. List.find (reset_query (params_token (request_of None None (Some ''P2'') ''tok''))
               (date_now (sample_env 2000 ''2''))) [pending_alice] = Some u \<and>
      List.find (\<lambda>v. uid v = uid u)
        (db (resetPassword (sample_env 2000 ''2'') [pending_alice]
           (request_of None None (Some ''P2'') ''tok''))) = Some u' \<and>
      u' = u\<lparr>password := password u', resetToken := None,
             resetTokenExpiration := None, updatedAt := save_time (sample_env 2000 ''2'')\<rparr> \<and>
      uid u' = uid u \<and> name u' = name u \<and> email u' = email u \<and> role u' = role u \<and>
      balance u' = balance u \<and> createdAt u' = createdAt u)"
proof -
  have h: "effects (resetPassword (sample_env 2000 ''2'') [pending_alice]
      (request_of None None (Some ''P2'') ''tok'')) =
     [Json 200 ''Password reset successful.'' NoData]"
    by (simp add: resetPassword_def findOne_def save_existing_def stamp_def reset_query_def
        sample_env_def pending_alice_def alice_def request_of_def)
  from resetPassword_keeps_other_fields [OF h] h show ?thesis by blast
qed

text \<open>
  The claim as stated, with \<open>updatedAt\<close> among the fields that do not change, fails: the
  matched document was last updated at 0 and after the reset at 2000.
\<close>

theorem resetPassword_changes_updatedAt:
  "effects (resetPassword (sample_env 2000 ''2'') [pending_alice]
      (request_of None None (Some ''P2'') ''tok'')) =
     [Json 200 ''Password reset successful.'' NoData] \<and>
   map updatedAt [pending_alice] = [0] \<and>
   map updatedAt (db (resetPassword (sample_env 2000 ''2'') [pending_alice]
      (request_of None None (Some ''P2'') ''tok''))) = [2000]"
  by (simp add: resetPassword_def findOne_def save_existing_def stamp_def reset_query_def
      sample_env_def pending_alice_def alice_def request_of_def)

end
